theory Spec2Isabelle
  imports Main
begin

section \<open>The lap tracker of \<^verbatim>\<open>lap_tracker.py\<close>: data model\<close>

text \<open>
  A Python \<^verbatim>\<open>str\<close> is a sequence of Unicode code points, so it is modelled as a list of
  natural numbers; \<open>py\<close> turns an ASCII literal into such a string. A \<^verbatim>\<open>datetime\<close> is
  the number of microseconds on the naive local clock that \<^verbatim>\<open>datetime.now()\<close> reads
  (the resolution of Python's \<^verbatim>\<open>datetime\<close>), so \<^verbatim>\<open>(a - b).total_seconds() < 30\<close> is
  \<open>a - b < 30000000\<close>.
\<close>

type_synonym pystr = "nat list"

type_synonym datetime = int

definition py :: "string \<Rightarrow> pystr" where
  "py cs = map of_char cs"

text \<open>
  \<^verbatim>\<open>str.strip()\<close> without argument removes leading and trailing white space, which for a
  \<^verbatim>\<open>str\<close> is every code point for which \<^verbatim>\<open>str.isspace\<close> holds.
\<close>

definition is_whitespace :: "nat \<Rightarrow> bool" where
  "is_whitespace c =
     (c \<in> {9, 10, 11, 12, 13, 28, 29, 30, 31, 32, 133, 160, 5760,
            8192, 8193, 8194, 8195, 8196, 8197, 8198, 8199, 8200, 8201, 8202,
            8232, 8233, 8239, 8287, 12288})"

definition strip :: "pystr \<Rightarrow> pystr" where
  "strip t = rev (dropWhile is_whitespace (rev (dropWhile is_whitespace t)))"

text \<open>One row of the day's CSV log, under the header
  \<^verbatim>\<open>timestamp,class_name,class_id,success,scan_type\<close>.\<close>

record csv_row =
  row_timestamp :: datetime
  row_class_name :: pystr
  row_class_id :: pystr
  row_success :: bool
  row_scan_type :: pystr

text \<open>The requests the tracker sends to the remote store (Supabase), in the order sent:
  a query of table \<^verbatim>\<open>classes\<close> by name, or an insert into table \<^verbatim>\<open>laps\<close>.\<close>

datatype remote_call =
  SelectClass pystr
| InsertLap pystr datetime

fun is_insert :: "remote_call \<Rightarrow> bool" where
  "is_insert (InsertLap class_id ts) = True"
| "is_insert (SelectClass n) = False"

text \<open>
  The fields of \<^verbatim>\<open>LapTracker\<close> that the submission pipeline reads or writes, with the two
  things it writes outside the process: the rows of the day's log file and the requests
  sent to the remote store. \<open>supabase\<close> says that \<^verbatim>\<open>self.supabase\<close> is a client (not
  \<^verbatim>\<open>None\<close>); \<open>input_var\<close> is the text of the entry field; \<open>feedback\<close> is the text of the
  green success frame while it is shown.
\<close>

record tracker =
  processing :: bool
  last_processed_text :: pystr
  recent_scans :: "pystr \<rightharpoonup> datetime"
  classes_dict :: "pystr \<rightharpoonup> pystr"
  barcode_dict :: "pystr \<rightharpoonup> pystr"
  supabase :: bool
  input_var :: pystr
  feedback :: "pystr option"
  csv_file :: "csv_row list"
  remote_log :: "remote_call list"

text \<open>
  What the world outside answers during one run of \<^verbatim>\<open>process_lap\<close>: the readings of
  \<^verbatim>\<open>datetime.now()\<close> at its four call sites, the answer of the remote store to a query
  and to an insert (an exception, or the rows of \<^verbatim>\<open>response.data\<close>), and whether
  appending to the log file goes through or raises.
\<close>

datatype select_response = SelectRaises | SelectData "pystr list"

datatype insert_response = InsertRaises | InsertData "(pystr \<times> datetime) list"

record world =
  now_check :: datetime
  now_insert :: datetime
  now_mark :: datetime
  now_csv :: datetime
  select_classes :: "pystr \<Rightarrow> select_response"
  insert_laps :: "pystr \<Rightarrow> datetime \<Rightarrow> insert_response"
  csv_append_ok :: bool

section \<open>The operations\<close>

text \<open>\<^verbatim>\<open>is_recent_scan\<close>: was this class scanned less than 30 seconds before \<open>now\<close>?\<close>

definition is_recent_scan :: "tracker \<Rightarrow> datetime \<Rightarrow> pystr \<Rightarrow> bool" where
  "is_recent_scan s now class_name =
     (case recent_scans s class_name of
        Some last_scan_time \<Rightarrow> now - last_scan_time < 30000000
      | None \<Rightarrow> False)"

text \<open>\<^verbatim>\<open>update_recent_scan\<close>.\<close>

definition update_recent_scan :: "tracker \<Rightarrow> datetime \<Rightarrow> pystr \<Rightarrow> tracker" where
  "update_recent_scan s now class_name =
     s\<lparr>recent_scans := (recent_scans s)(class_name \<mapsto> now)\<rparr>"

text \<open>The name a barcode stands for, or the text itself when it is no barcode
  (lines 380 to 385 of \<^verbatim>\<open>get_class_id_by_name\<close> and 491 to 493 of \<^verbatim>\<open>process_lap\<close>).\<close>

definition barcode_or_name :: "tracker \<Rightarrow> pystr \<Rightarrow> pystr" where
  "barcode_or_name s input_text =
     (case barcode_dict s input_text of
        Some class_name \<Rightarrow> class_name
      | None \<Rightarrow> input_text)"

text \<open>
  \<^verbatim>\<open>get_class_id_by_name\<close>: the barcode table first, then the local class table, then the
  remote store; an id learned from the remote store is added to the local class table.
  Every exception of the remote query is caught and gives \<^verbatim>\<open>None\<close>.
\<close>

definition get_class_id_by_name :: "tracker \<Rightarrow> world \<Rightarrow> pystr \<Rightarrow> pystr option \<times> tracker" where
  "get_class_id_by_name s w raw_text =
     (let input_text = strip raw_text;
          final_class_name = barcode_or_name s input_text
      in case classes_dict s final_class_name of
           Some class_id \<Rightarrow> (Some class_id, s)
         | None \<Rightarrow>
             if \<not> supabase s then (None, s)
             else
               let s1 = s\<lparr>remote_log := remote_log s @ [SelectClass final_class_name]\<rparr>
               in case select_classes w final_class_name of
                    SelectRaises \<Rightarrow> (None, s1)
                  | SelectData [] \<Rightarrow> (None, s1)
                  | SelectData (class_id # rest) \<Rightarrow>
                      (Some class_id,
                       s1\<lparr>classes_dict := (classes_dict s1)(final_class_name \<mapsto> class_id)\<rparr>))"

text \<open>\<^verbatim>\<open>add_lap_to_supabase\<close>: true only when the insert is acknowledged with data.\<close>

definition add_lap_to_supabase :: "tracker \<Rightarrow> world \<Rightarrow> pystr \<Rightarrow> bool \<times> tracker" where
  "add_lap_to_supabase s w class_id =
     (if \<not> supabase s then (False, s)
      else
        let s1 = s\<lparr>remote_log := remote_log s @ [InsertLap class_id (now_insert w)]\<rparr>
        in case insert_laps w class_id (now_insert w) of
             InsertRaises \<Rightarrow> (False, s1)
           | InsertData rows \<Rightarrow> (rows \<noteq> [], s1))"

text \<open>\<^verbatim>\<open>class_id or "UNKNOWN"\<close>: \<^verbatim>\<open>None\<close> and the empty string are both false in Python.\<close>

definition or_unknown :: "pystr option \<Rightarrow> pystr" where
  "or_unknown class_id =
     (case class_id of
        None \<Rightarrow> py ''UNKNOWN''
      | Some i \<Rightarrow> if i = [] then py ''UNKNOWN'' else i)"

text \<open>
  \<^verbatim>\<open>add_lap_to_csv\<close>: one row appended to the log file. When opening or writing the file
  raises, the exception is caught and printed, and the file is as before.
\<close>

definition add_lap_to_csv ::
  "tracker \<Rightarrow> world \<Rightarrow> pystr \<Rightarrow> pystr option \<Rightarrow> bool \<Rightarrow> bool \<Rightarrow> tracker" where
  "add_lap_to_csv s w class_name class_id success is_duplicate =
     (if csv_append_ok w then
        s\<lparr>csv_file := csv_file s @
          [\<lparr>row_timestamp = now_csv w,
            row_class_name = strip class_name,
            row_class_id = or_unknown class_id,
            row_success = success,
            row_scan_type = (if is_duplicate then py ''DUPLICATE_SCAN'' else py ''NORMAL'')\<rparr>]\<rparr>
      else s)"

text \<open>
  \<^verbatim>\<open>show_success_screen\<close> puts up the green frame and starts the thread \<^verbatim>\<open>restore_main\<close>.
  The thread sleeps one second and then runs its assignments one after the other; the
  last two are \<^verbatim>\<open>self.processing = False\<close> and \<^verbatim>\<open>self.last_processed_text = ""\<close>, and
  the main thread may run between them, so the thread is two steps here.
\<close>

definition show_success_screen :: "tracker \<Rightarrow> pystr \<Rightarrow> tracker" where
  "show_success_screen s class_name =
     s\<lparr>feedback := Some (py ''LAP TOEGEVOEGD!'' @ [10] @ class_name)\<rparr>"

definition restore_main_flag :: "tracker \<Rightarrow> tracker" where
  "restore_main_flag s = s\<lparr>feedback := None, input_var := [], processing := False\<rparr>"

definition restore_main_marker :: "tracker \<Rightarrow> tracker" where
  "restore_main_marker s = s\<lparr>last_processed_text := []\<rparr>"

definition restore_main :: "tracker \<Rightarrow> tracker" where
  "restore_main s = restore_main_marker (restore_main_flag s)"

text \<open>The separator of \<^verbatim>\<open>f"{input_text} \<rightarrow> {display_name}"\<close>: space, U+2192, space.\<close>

definition arrow :: pystr where
  "arrow = [32, 8594, 32]"

definition duplicate_note :: pystr where
  "duplicate_note = [10] @ py ''(Duplicate - niet geteld)''"

text \<open>
  \<^verbatim>\<open>process_lap\<close>. The three early returns leave everything as it is. Otherwise the
  duplicate check comes first, then the id, then the remote insert and the new scan time
  (only for an id that is true in Python's sense and a scan that is no duplicate), then
  the CSV row, then the success screen.
\<close>

definition process_lap :: "tracker \<Rightarrow> world \<Rightarrow> tracker" where
  "process_lap s w =
     (let input_text = strip (input_var s) in
      if input_text = [] then s
      else if processing s then s
      else if input_text = last_processed_text s then s
      else
        let s1 = s\<lparr>processing := True, last_processed_text := input_text\<rparr>;
            display_name = barcode_or_name s1 input_text;
            is_duplicate = is_recent_scan s1 (now_check w) display_name;
            (class_id, s2) = get_class_id_by_name s1 w input_text;
            (success, s3) =
              (case class_id of
                 None \<Rightarrow> (False, s2)
               | Some i \<Rightarrow>
                   if i \<noteq> [] \<and> \<not> is_duplicate then
                     let (ok, s') = add_lap_to_supabase s2 w i
                     in (ok, update_recent_scan s' (now_mark w) display_name)
                   else (False, s2));
            csv_name = (if input_text \<noteq> display_name
                        then input_text @ arrow @ display_name
                        else display_name);
            s4 = add_lap_to_csv s3 w csv_name class_id success is_duplicate
        in if is_duplicate
           then show_success_screen s4 (display_name @ duplicate_note)
           else show_success_screen s4 display_name)"

text \<open>\<^verbatim>\<open>check_and_process\<close>, which the key and paste events schedule.\<close>

definition check_and_process :: "tracker \<Rightarrow> world \<Rightarrow> tracker" where
  "check_and_process s w =
     (let text = strip (input_var s) in
      if processing s then s
      else if text = last_processed_text s then s
      else if text \<noteq> [] then process_lap s w
      else s)"

text \<open>
  The guard of \<^verbatim>\<open>process_lap\<close>: none of its three early returns is taken, so the
  submission goes on to be processed.
\<close>

definition passes_guards :: "tracker \<Rightarrow> bool" where
  "passes_guards s =
     (strip (input_var s) \<noteq> [] \<and> \<not> processing s \<and>
      strip (input_var s) \<noteq> last_processed_text s)"

text \<open>
  The local variables of \<^verbatim>\<open>process_lap\<close> as functions of the state and the world it
  runs in: \<^verbatim>\<open>display_name\<close>, \<^verbatim>\<open>is_duplicate\<close>, \<^verbatim>\<open>class_id\<close>, the test
  \<^verbatim>\<open>if class_id\<close>, \<^verbatim>\<open>success\<close>, the row handed to the CSV writer, the insert sent to
  the remote store (if any) and the text of the success frame. Lemma \<open>process_lap_run\<close>
  below proves that \<open>process_lap\<close> computes exactly these.
\<close>

definition lap_name :: "tracker \<Rightarrow> pystr" where
  "lap_name s = barcode_or_name s (strip (input_var s))"

definition lap_duplicate :: "tracker \<Rightarrow> world \<Rightarrow> bool" where
  "lap_duplicate s w = is_recent_scan s (now_check w) (lap_name s)"

definition lap_id :: "tracker \<Rightarrow> world \<Rightarrow> pystr option" where
  "lap_id s w = fst (get_class_id_by_name s w (input_var s))"

definition lap_resolved :: "tracker \<Rightarrow> world \<Rightarrow> bool" where
  "lap_resolved s w = (case lap_id s w of None \<Rightarrow> False | Some i \<Rightarrow> i \<noteq> [])"

definition lap_success :: "tracker \<Rightarrow> world \<Rightarrow> bool" where
  "lap_success s w =
     (case lap_id s w of
        None \<Rightarrow> False
      | Some i \<Rightarrow> i \<noteq> [] \<and> \<not> lap_duplicate s w \<and> fst (add_lap_to_supabase s w i))"

definition lap_row :: "tracker \<Rightarrow> world \<Rightarrow> csv_row" where
  "lap_row s w =
     \<lparr>row_timestamp = now_csv w,
      row_class_name =
        strip (if strip (input_var s) \<noteq> lap_name s
               then strip (input_var s) @ arrow @ lap_name s else lap_name s),
      row_class_id = or_unknown (lap_id s w),
      row_success = lap_success s w,
      row_scan_type = (if lap_duplicate s w then py ''DUPLICATE_SCAN'' else py ''NORMAL'')\<rparr>"

definition lap_inserts :: "tracker \<Rightarrow> world \<Rightarrow> remote_call list" where
  "lap_inserts s w =
     (case lap_id s w of
        None \<Rightarrow> []
      | Some i \<Rightarrow>
          if i \<noteq> [] \<and> \<not> lap_duplicate s w \<and> supabase s
          then [InsertLap i (now_insert w)] else [])"

definition lap_feedback :: "tracker \<Rightarrow> world \<Rightarrow> pystr" where
  "lap_feedback s w =
     py ''LAP TOEGEVOEGD!'' @ [10] @
     (if lap_duplicate s w then lap_name s @ duplicate_note else lap_name s)"

text \<open>
  What happens to the tracker, one event at a time (\<^verbatim>\<open>setup_bindings\<close>): the operator
  changes the text of the entry field, the Return key runs \<^verbatim>\<open>process_lap\<close>, a key release
  or a paste runs \<^verbatim>\<open>check_and_process\<close> through a timer, and the thread of
  \<^verbatim>\<open>show_success_screen\<close> performs its two steps.
\<close>

datatype event =
  Typed pystr
| ReturnKey world
| AutoSubmit world
| RestoreFlag
| RestoreMarker

fun step :: "tracker \<Rightarrow> event \<Rightarrow> tracker" where
  "step s (Typed t) = s\<lparr>input_var := t\<rparr>"
| "step s (ReturnKey w) = process_lap s w"
| "step s (AutoSubmit w) = check_and_process s w"
| "step s RestoreFlag = restore_main_flag s"
| "step s RestoreMarker = restore_main_marker s"

definition run :: "tracker \<Rightarrow> event list \<Rightarrow> tracker" where
  "run s es = foldl step s es"

text \<open>
  A tracker as it is after start-up with one class and one barcode loaded, and two
  worlds: one where the remote store answers, one where every remote call raises.
\<close>

definition demo :: tracker where
  "demo =
     \<lparr>processing = False, last_processed_text = [], recent_scans = Map.empty,
      classes_dict = [py ''7A'' \<mapsto> py ''id-7a''],
      barcode_dict = [py ''B123'' \<mapsto> py ''7A''],
      supabase = True, input_var = [], feedback = None, csv_file = [], remote_log = []\<rparr>"

definition remote_up :: "datetime \<Rightarrow> world" where
  "remote_up t =
     \<lparr>now_check = t, now_insert = t + 1, now_mark = t + 2, now_csv = t + 3,
      select_classes = (\<lambda>n. if n = py ''9Z'' then SelectData [py ''id-9z''] else SelectData []),
      insert_laps = (\<lambda>i ts. InsertData [(i, ts)]),
      csv_append_ok = True\<rparr>"

definition remote_down :: "datetime \<Rightarrow> world" where
  "remote_down t =
     \<lparr>now_check = t, now_insert = t + 1, now_mark = t + 2, now_csv = t + 3,
      select_classes = (\<lambda>n. SelectRaises),
      insert_laps = (\<lambda>i ts. InsertRaises),
      csv_append_ok = True\<rparr>"

text \<open>A tracker in which class 7A was last scanned at second 100.\<close>

definition demo_scanned :: tracker where
  "demo_scanned = demo\<lparr>recent_scans := [py ''7A'' \<mapsto> 100000000], input_var := py ''B123''\<rparr>"

text \<open>The tracker after it has learned class 9Z from the remote store.\<close>

definition demo_learned :: tracker where
  "demo_learned =
     demo\<lparr>remote_log := [SelectClass (py ''9Z'')],
          classes_dict := [py ''7A'' \<mapsto> py ''id-7a'', py ''9Z'' \<mapsto> py ''id-9z'']\<rparr>"

text \<open>A tracker whose barcode table also has a class name, 7B, as a barcode.\<close>

definition demo_chain :: tracker where
  "demo_chain =
     demo\<lparr>classes_dict := [py ''7A'' \<mapsto> py ''id-7a'', py ''7B'' \<mapsto> py ''id-7b''],
          barcode_dict := [py ''B123'' \<mapsto> py ''7A'', py ''B456'' \<mapsto> py ''7B'',
                           py ''7B'' \<mapsto> py ''7A'']\<rparr>"

section \<open>Trimming\<close>

lemma lstrip_Nil_or_hd: "dropWhile P t = [] \<or> \<not> P (hd (dropWhile P t))"
  by (cases "dropWhile P t = []") (simp_all add: hd_dropWhile)

lemma strip_Nil_iff: "strip t = [] \<longleftrightarrow> list_all is_whitespace t"
proof -
  let ?u = "dropWhile is_whitespace t"
  have "strip t = [] \<longleftrightarrow> (\<forall>c\<in>set ?u. is_whitespace c)"
    by (simp add: strip_def)
  also have "\<dots> \<longleftrightarrow> ?u = []"
  proof
    assume a: "\<forall>c\<in>set ?u. is_whitespace c"
    show "?u = []"
    proof (rule ccontr)
      assume n: "?u \<noteq> []"
      then have "hd ?u \<in> set ?u" by (rule hd_in_set)
      with a have "is_whitespace (hd ?u)" by blast
      with n lstrip_Nil_or_hd [of is_whitespace t] show False by blast
    qed
  next
    assume "?u = []"
    then show "\<forall>c\<in>set ?u. is_whitespace c" by (simp only: set_simps ball_empty)
  qed
  also have "\<dots> \<longleftrightarrow> list_all is_whitespace t"
    by (simp add: list_all_iff)
  finally show ?thesis .
qed

lemma rstrip_is_take: "rev (dropWhile P (rev u)) = take (length u - length (takeWhile P (rev u))) u"
  by (simp add: dropWhile_eq_drop rev_drop)

lemma strip_trimmed:
  "strip t = [] \<or> (\<not> is_whitespace (hd (strip t)) \<and> \<not> is_whitespace (last (strip t)))"
proof (cases "strip t = []")
  case False
  let ?u = "dropWhile is_whitespace t"
  let ?d = "dropWhile is_whitespace (rev ?u)"
  from False have d: "?d \<noteq> []" by (simp add: strip_def)
  then have "\<not> is_whitespace (hd ?d)" by (simp add: hd_dropWhile)
  with d have l: "\<not> is_whitespace (last (strip t))"
    by (simp add: strip_def last_rev)
  from d have u: "?u \<noteq> []" by (auto simp del: dropWhile_eq_Nil_conv)
  have "strip t = take (length ?u - length (takeWhile is_whitespace (rev ?u))) ?u"
    unfolding strip_def by (rule rstrip_is_take)
  with False have "hd (strip t) = hd ?u"
    by (metis hd_take take_eq_Nil not_gr_zero)
  with u have "\<not> is_whitespace (hd (strip t))"
    by (simp add: hd_dropWhile)
  with l show ?thesis by simp
qed simp

lemma strip_fixed:
  assumes "t = [] \<or> (\<not> is_whitespace (hd t) \<and> \<not> is_whitespace (last t))"
  shows "strip t = t"
proof (cases "t = []")
  case True
  then show ?thesis by (simp add: strip_def)
next
  case False
  with assms have h: "\<not> is_whitespace (hd t)" and l: "\<not> is_whitespace (last t)" by auto
  from False h have "dropWhile is_whitespace t = t" by (cases t) auto
  moreover from False l have "dropWhile is_whitespace (rev t) = rev t"
    by (cases t rule: rev_cases) auto
  ultimately show ?thesis by (simp add: strip_def)
qed

lemma strip_idem: "strip (strip t) = strip t"
  by (rule strip_fixed) (rule strip_trimmed)

section \<open>What one run of the pipeline does\<close>

lemma get_id_strip:
  "get_class_id_by_name s w (strip x) = get_class_id_by_name s w x"
  by (simp add: get_class_id_by_name_def strip_idem)

lemma get_id_guard_fields:
  "get_class_id_by_name (s\<lparr>processing := a, last_processed_text := b\<rparr>) w x =
   (fst (get_class_id_by_name s w x),
    (snd (get_class_id_by_name s w x))\<lparr>processing := a, last_processed_text := b\<rparr>)"
  by (simp add: get_class_id_by_name_def barcode_or_name_def Let_def
           split: option.splits select_response.splits list.splits)

lemma get_id_state:
  "snd (get_class_id_by_name s w x) =
   s\<lparr>classes_dict := classes_dict (snd (get_class_id_by_name s w x)),
     remote_log := remote_log (snd (get_class_id_by_name s w x))\<rparr>"
  by (simp add: get_class_id_by_name_def Let_def
           split: option.splits select_response.splits list.splits)

lemma insert_eq:
  "add_lap_to_supabase s w i =
     (supabase s \<and> (case insert_laps w i (now_insert w) of
                       InsertRaises \<Rightarrow> False | InsertData rows \<Rightarrow> rows \<noteq> []),
      s\<lparr>remote_log := remote_log s @ (if supabase s then [InsertLap i (now_insert w)] else [])\<rparr>)"
  by (simp add: add_lap_to_supabase_def Let_def split: insert_response.splits)

lemma process_lap_skip: "\<not> passes_guards s \<Longrightarrow> process_lap s w = s"
  by (auto simp: process_lap_def passes_guards_def Let_def)

lemma process_lap_run:
  assumes "passes_guards s"
  shows "process_lap s w =
     s\<lparr>processing := True,
       last_processed_text := strip (input_var s),
       recent_scans := (if lap_resolved s w \<and> \<not> lap_duplicate s w
                        then (recent_scans s)(lap_name s \<mapsto> now_mark w) else recent_scans s),
       classes_dict := classes_dict (snd (get_class_id_by_name s w (input_var s))),
       feedback := Some (lap_feedback s w),
       csv_file := (if csv_append_ok w then csv_file s @ [lap_row s w] else csv_file s),
       remote_log := remote_log (snd (get_class_id_by_name s w (input_var s))) @ lap_inserts s w\<rparr>"
proof -
  let ?x = "strip (input_var s)"
  let ?g = "get_class_id_by_name s w (input_var s)"
  define C where "C = classes_dict (snd ?g)"
  define R where "R = remote_log (snd ?g)"
  have st: "snd ?g = s\<lparr>classes_dict := C, remote_log := R\<rparr>"
    unfolding C_def R_def by (rule get_id_state)
  have g: "get_class_id_by_name (s\<lparr>processing := True, last_processed_text := ?x\<rparr>) w ?x =
        (lap_id s w, s\<lparr>processing := True, last_processed_text := ?x,
                        classes_dict := C, remote_log := R\<rparr>)"
    by (simp add: get_id_guard_fields get_id_strip lap_id_def st)
  show ?thesis
  proof (cases "lap_id s w")
    case None
    with assms g st show ?thesis
      by (simp add: process_lap_def passes_guards_def Let_def add_lap_to_csv_def
            show_success_screen_def lap_row_def lap_name_def lap_duplicate_def lap_success_def
            lap_resolved_def lap_inserts_def lap_feedback_def
            barcode_or_name_def is_recent_scan_def)
  next
    case (Some i)
    with assms g st show ?thesis
      by (simp add: process_lap_def passes_guards_def Let_def add_lap_to_csv_def
            show_success_screen_def lap_row_def lap_name_def lap_duplicate_def lap_success_def
            lap_resolved_def lap_inserts_def lap_feedback_def insert_eq
            barcode_or_name_def is_recent_scan_def update_recent_scan_def)
  qed
qed

lemma process_lap_last_row:
  "passes_guards s \<Longrightarrow> csv_append_ok w \<Longrightarrow> last (csv_file (process_lap s w)) = lap_row s w"
  by (simp add: process_lap_run)

lemma get_id_local:
  "classes_dict s (barcode_or_name s (strip x)) = Some i \<Longrightarrow>
   get_class_id_by_name s w x = (Some i, s)"
  by (simp add: get_class_id_by_name_def)

lemma get_id_remote_hit:
  assumes "classes_dict s (barcode_or_name s (strip x)) = None" and "supabase s"
    and "select_classes w (barcode_or_name s (strip x)) = SelectData (i # rest)"
  shows "get_class_id_by_name s w x =
     (Some i, s\<lparr>remote_log := remote_log s @ [SelectClass (barcode_or_name s (strip x))],
               classes_dict := (classes_dict s)(barcode_or_name s (strip x) \<mapsto> i)\<rparr>)"
  using assms by (simp add: get_class_id_by_name_def Let_def)

lemma get_id_cached:
  assumes "get_class_id_by_name s w x = (Some i, s')"
  shows "classes_dict s' (barcode_or_name s (strip x)) = Some i"
  using assms
  by (auto simp: get_class_id_by_name_def Let_def
      split: option.splits if_splits select_response.splits list.splits)

lemma get_id_barcodes:
  "barcode_dict (snd (get_class_id_by_name s w x)) = barcode_dict s"
  by (subst get_id_state) simp

lemma get_id_classes_mono:
  assumes "classes_dict s k = Some v"
  shows "classes_dict (snd (get_class_id_by_name s w x)) k = Some v"
  using assms
  by (auto simp: get_class_id_by_name_def Let_def
      split: option.splits if_splits select_response.splits list.splits)

lemma process_lap_keeps:
  "barcode_dict (process_lap s w) = barcode_dict s \<and>
   (classes_dict s k = Some v \<longrightarrow> classes_dict (process_lap s w) k = Some v)"
  by (cases "passes_guards s")
     (simp_all add: process_lap_run process_lap_skip get_id_classes_mono)

lemma check_and_process_eq: "check_and_process s w = process_lap s w"
  by (simp add: check_and_process_def process_lap_def Let_def)

lemma step_keeps:
  "barcode_dict (step s e) = barcode_dict s \<and>
   (classes_dict s k = Some v \<longrightarrow> classes_dict (step s e) k = Some v)"
  by (cases e)
     (simp_all add: process_lap_keeps check_and_process_eq restore_main_flag_def
        restore_main_marker_def)

lemma run_keeps:
  "barcode_dict (run s es) = barcode_dict s \<and>
   (classes_dict s k = Some v \<longrightarrow> classes_dict (run s es) k = Some v)"
  unfolding run_def
proof (induction es arbitrary: s)
  case Nil
  show ?case by simp
next
  case (Cons e es)
  from step_keeps [of s e k v] Cons [of "step s e"] show ?case by simp
qed

lemma passes_guards_input:
  "passes_guards (s\<lparr>input_var := t\<rparr>) =
     (strip t \<noteq> [] \<and> \<not> processing s \<and> strip t \<noteq> last_processed_text s)"
  by (simp add: passes_guards_def)

lemma get_id_inserts:
  "filter is_insert (remote_log (snd (get_class_id_by_name s w x))) =
   filter is_insert (remote_log s)"
  by (simp add: get_class_id_by_name_def Let_def
      split: option.splits select_response.splits list.splits)

lemma process_lap_inserts:
  "passes_guards s \<Longrightarrow>
   filter is_insert (remote_log (process_lap s w)) =
   filter is_insert (remote_log s) @ lap_inserts s w"
  by (simp add: process_lap_run get_id_inserts lap_inserts_def split: option.splits)

lemma lap_row_fields:
  "row_timestamp (lap_row s w) = now_csv w"
  "row_class_id (lap_row s w) = or_unknown (lap_id s w)"
  "row_success (lap_row s w) = lap_success s w"
  "row_scan_type (lap_row s w) =
     (if lap_duplicate s w then py ''DUPLICATE_SCAN'' else py ''NORMAL'')"
  by (simp_all add: lap_row_def)

lemma demo_texts:
  "strip (py ''B123'') = py ''B123''" "strip (py ''7A'') = py ''7A''"
  "strip (py ''zz'') = py ''zz''" "strip (py ''9Z'') = py ''9Z''"
  "py ''B123'' \<noteq> []" "py ''7A'' \<noteq> []" "py ''zz'' \<noteq> []" "py ''B123'' \<noteq> py ''7A''"
  "py ''7A'' \<noteq> py ''B123''" "py ''zz'' \<noteq> py ''B123''" "py ''zz'' \<noteq> py ''7A''"
  "py ''id-7a'' \<noteq> []"
  by (simp_all add: py_def strip_def is_whitespace_def)

lemma get_id_insert_answer:
  "get_class_id_by_name s (w\<lparr>insert_laps := ins\<rparr>) x = get_class_id_by_name s w x"
  by (simp add: get_class_id_by_name_def Let_def split: option.splits)

lemma process_lap_recent_scans:
  "passes_guards s \<Longrightarrow>
   recent_scans (process_lap s w) =
     (if lap_resolved s w \<and> \<not> lap_duplicate s w
      then (recent_scans s)(lap_name s \<mapsto> now_mark w) else recent_scans s)"
  by (simp add: process_lap_run)

lemma lap_resolved_iff:
  "lap_resolved s w = (\<exists>i. fst (get_class_id_by_name s w (input_var s)) = Some i \<and> i \<noteq> [])"
  by (simp add: lap_resolved_def lap_id_def split: option.splits)

lemma get_id_input_var:
  "get_class_id_by_name (s\<lparr>input_var := t\<rparr>) w x =
   (fst (get_class_id_by_name s w x), (snd (get_class_id_by_name s w x))\<lparr>input_var := t\<rparr>)"
  by (simp add: get_class_id_by_name_def barcode_or_name_def Let_def
           split: option.splits select_response.splits list.splits)

lemma get_id_same_name:
  "barcode_or_name s (strip x) = barcode_or_name s (strip y) \<Longrightarrow>
   get_class_id_by_name s w x = get_class_id_by_name s w y"
  by (simp add: get_class_id_by_name_def)

lemma strip_joined:
  assumes "strip b = b" and "strip c = c" and "b \<noteq> []" and "c \<noteq> []"
  shows "strip (b @ m @ c) = b @ m @ c"
proof (rule strip_fixed)
  from strip_trimmed [of b] assms(1,3) have "\<not> is_whitespace (hd b)" by simp
  moreover from strip_trimmed [of c] assms(2,4) have "\<not> is_whitespace (last c)" by simp
  ultimately show "b @ m @ c = [] \<or>
      (\<not> is_whitespace (hd (b @ m @ c)) \<and> \<not> is_whitespace (last (b @ m @ c)))"
    using assms(3,4) by simp
qed

section \<open>The duplicate check\<close>

text \<open>
  C9: a class name that has never been marked scanned (it is absent from
  \<^verbatim>\<open>recent_scans\<close>) is not a recent scan, whatever the time. So a submission of a team
  that was never scanned before is not classified as duplicate: its row in the log has
  scan type \<^verbatim>\<open>NORMAL\<close> and the success frame shows the name without the duplicate note.
\<close>

theorem never_scanned_is_no_duplicate:
  assumes "recent_scans s class_name = None"
  shows "is_recent_scan s now class_name = False \<and>
         (passes_guards s \<and> lap_name s = class_name \<longrightarrow>
            feedback (process_lap s w) = Some (py ''LAP TOEGEVOEGD!'' @ [10] @ class_name) \<and>
            (csv_append_ok w \<longrightarrow>
               row_scan_type (last (csv_file (process_lap s w))) = py ''NORMAL''))"
proof -
  have a: "is_recent_scan s t class_name = False" for t
    using assms by (simp add: is_recent_scan_def)
  have "lap_duplicate s w = False" if "lap_name s = class_name"
    using that a by (simp add: lap_duplicate_def)
  then show ?thesis
    using a by (simp add: process_lap_run lap_row_def lap_feedback_def)
qed

theorem never_scanned_is_no_duplicate_witness:
  "recent_scans (demo\<lparr>input_var := py ''B123''\<rparr>) (py ''7A'') = None \<and>
   is_recent_scan (demo\<lparr>input_var := py ''B123''\<rparr>) 5 (py ''7A'') = False \<and>
   feedback (process_lap (demo\<lparr>input_var := py ''B123''\<rparr>) (remote_up 1000000)) =
     Some (py ''LAP TOEGEVOEGD!'' @ [10] @ py ''7A'') \<and>
   row_scan_type (last (csv_file (process_lap (demo\<lparr>input_var := py ''B123''\<rparr>)
     (remote_up 1000000)))) = py ''NORMAL''"
proof -
  let ?s = "demo\<lparr>input_var := py ''B123''\<rparr>"
  have h: "recent_scans ?s (py ''7A'') = None"
    by (simp add: demo_def)
  have g: "passes_guards ?s \<and> lap_name ?s = py ''7A'' \<and> csv_append_ok (remote_up 1000000)"
    by (simp add: passes_guards_def lap_name_def barcode_or_name_def demo_def remote_up_def
          py_def strip_def is_whitespace_def)
  from never_scanned_is_no_duplicate [OF h, of 5 "remote_up 1000000"] h g
  show ?thesis by blast
qed

text \<open>
  C5: for a class name with a recorded last scan time, the check says duplicate exactly
  when less than 30 seconds (30000000 microseconds) have passed since that time. At 31
  seconds after the time recorded by \<^verbatim>\<open>update_recent_scan\<close> the check says no, at one
  microsecond under 30 seconds it says yes. In \<^verbatim>\<open>process_lap\<close> this check of the
  display name, at the time the check reads the clock, decides the scan type of the row.
\<close>

theorem duplicate_iff_under_30_seconds:
  assumes "recent_scans s class_name = Some last_scan_time"
  shows "is_recent_scan s now class_name = (now - last_scan_time < 30000000) \<and>
         is_recent_scan s (last_scan_time + 31000000) class_name = False \<and>
         is_recent_scan (update_recent_scan s t class_name) (t + 31000000) class_name = False \<and>
         is_recent_scan (update_recent_scan s t class_name) (t + 29999999) class_name = True \<and>
         (passes_guards s \<and> lap_name s = class_name \<and> csv_append_ok w \<longrightarrow>
            (row_scan_type (last (csv_file (process_lap s w))) = py ''DUPLICATE_SCAN'') =
            (now_check w - last_scan_time < 30000000))"
proof -
  have a: "is_recent_scan s u class_name = (u - last_scan_time < 30000000)" for u
    using assms by (simp add: is_recent_scan_def)
  have b: "py ''NORMAL'' \<noteq> py ''DUPLICATE_SCAN''"
    by (simp add: py_def)
  have "lap_duplicate s w = (now_check w - last_scan_time < 30000000)"
    if "lap_name s = class_name"
    using that a by (simp add: lap_duplicate_def)
  then have c: "passes_guards s \<and> lap_name s = class_name \<and> csv_append_ok w \<longrightarrow>
      (row_scan_type (last (csv_file (process_lap s w))) = py ''DUPLICATE_SCAN'') =
      (now_check w - last_scan_time < 30000000)"
    using b by (simp add: process_lap_last_row lap_row_def)
  have d: "is_recent_scan (update_recent_scan s t class_name) u class_name = (u - t < 30000000)"
    for u
    by (simp add: is_recent_scan_def update_recent_scan_def)
  show ?thesis
    using a c d by simp
qed

theorem duplicate_iff_under_30_seconds_witness:
  "recent_scans demo_scanned (py ''7A'') = Some 100000000 \<and>
   is_recent_scan demo_scanned 129999999 (py ''7A'') = True \<and>
   is_recent_scan demo_scanned 130000000 (py ''7A'') = False \<and>
   is_recent_scan demo_scanned 131000000 (py ''7A'') = False \<and>
   row_scan_type (last (csv_file (process_lap demo_scanned (remote_up 110000000)))) =
     py ''DUPLICATE_SCAN'' \<and>
   row_scan_type (last (csv_file (process_lap demo_scanned (remote_up 131000000)))) \<noteq>
     py ''DUPLICATE_SCAN''"
proof -
  have h: "recent_scans demo_scanned (py ''7A'') = Some 100000000"
    by (simp add: demo_scanned_def demo_def)
  have g: "passes_guards demo_scanned \<and> lap_name demo_scanned = py ''7A'' \<and>
           csv_append_ok (remote_up t)" for t
    by (simp add: passes_guards_def lap_name_def barcode_or_name_def demo_scanned_def demo_def
          remote_up_def py_def strip_def is_whitespace_def)
  have n: "now_check (remote_up t) = t" for t
    by (simp add: remote_up_def)
  show ?thesis
    using h g n
      duplicate_iff_under_30_seconds [OF h, of 129999999 0 "remote_up 110000000"]
      duplicate_iff_under_30_seconds [OF h, of 130000000 0 "remote_up 131000000"]
    by simp
qed

section \<open>Blank input\<close>

text \<open>
  C10: when the text of the entry field is empty or consists of white space only, both
  \<^verbatim>\<open>process_lap\<close> and \<^verbatim>\<open>check_and_process\<close> return at once and leave the tracker as it
  was: no row in the log, no request to the remote store, the same recent scans, marker,
  processing flag and class table.
\<close>

theorem blank_input_changes_nothing:
  assumes "list_all is_whitespace (input_var s)"
  shows "process_lap s w = s \<and> check_and_process s w = s"
proof -
  from assms have "strip (input_var s) = []"
    by (simp add: strip_Nil_iff)
  then show ?thesis
    by (simp add: process_lap_def check_and_process_def)
qed

theorem blank_input_changes_nothing_witness:
  "list_all is_whitespace (input_var (demo\<lparr>input_var := [32, 9, 32]\<rparr>)) \<and>
   process_lap (demo\<lparr>input_var := [32, 9, 32]\<rparr>) (remote_up 7) = demo\<lparr>input_var := [32, 9, 32]\<rparr> \<and>
   check_and_process (demo\<lparr>input_var := [32, 9, 32]\<rparr>) (remote_up 7) =
     demo\<lparr>input_var := [32, 9, 32]\<rparr>"
proof -
  have h: "list_all is_whitespace (input_var (demo\<lparr>input_var := [32, 9, 32]\<rparr>))"
    by (simp add: is_whitespace_def)
  from blank_input_changes_nothing [OF h, of "remote_up 7"] h show ?thesis
    by simp
qed


section \<open>The class cache\<close>

text \<open>
  C7: \<^verbatim>\<open>get_class_id_by_name\<close> works on the name the input stands for (the class of the
  barcode, or the trimmed input itself). When that name is in the local class table, its
  id is returned and the tracker is unchanged, so no request goes to the remote store.
  When it is not, the remote store is connected and its answer has a first row, that id
  is returned, one query is logged, and the name is added to the local table. After any
  call that returned an id, the name is in the local table, and whatever events follow,
  every later call for the same input returns that id and leaves the tracker, the log of
  remote requests included, as it was.
\<close>

theorem resolved_name_is_cached:
  "(classes_dict s (barcode_or_name s (strip x)) = Some i \<longrightarrow>
      get_class_id_by_name s w x = (Some i, s)) \<and>
   (classes_dict s (barcode_or_name s (strip x)) = None \<and> supabase s \<and>
    select_classes w (barcode_or_name s (strip x)) = SelectData (i # rest) \<longrightarrow>
      get_class_id_by_name s w x =
        (Some i, s\<lparr>remote_log := remote_log s @ [SelectClass (barcode_or_name s (strip x))],
                  classes_dict := (classes_dict s)(barcode_or_name s (strip x) \<mapsto> i)\<rparr>)) \<and>
   (get_class_id_by_name s w x = (Some i, s') \<longrightarrow>
      classes_dict s' (barcode_or_name s (strip x)) = Some i \<and>
      (\<forall>es w'. get_class_id_by_name (run s' es) w' x = (Some i, run s' es)))"
proof -
  have "get_class_id_by_name (run s' es) w' x = (Some i, run s' es)"
    if g: "get_class_id_by_name s w x = (Some i, s')" for es w'
  proof -
    have b: "barcode_dict s' = barcode_dict s"
      using get_id_barcodes [of s w x] g by simp
    have n: "barcode_or_name (run s' es) (strip x) = barcode_or_name s (strip x)"
      using run_keeps [of s' es] b by (simp add: barcode_or_name_def)
    have "classes_dict (run s' es) (barcode_or_name s (strip x)) = Some i"
      using run_keeps [of s' es "barcode_or_name s (strip x)" i] get_id_cached [OF g] by simp
    with n show ?thesis by (simp add: get_id_local)
  qed
  then show ?thesis
    using get_id_local [of s x i w] get_id_remote_hit [of s x w i rest] get_id_cached [of s w x i s']
    by blast
qed


theorem resolved_name_is_cached_witness:
  "classes_dict demo (barcode_or_name demo (strip (py ''B123''))) = Some (py ''id-7a'') \<and>
   get_class_id_by_name demo (remote_down 5) (py ''B123'') = (Some (py ''id-7a''), demo) \<and>
   classes_dict demo (barcode_or_name demo (strip (py ''9Z''))) = None \<and>
   supabase demo \<and>
   select_classes (remote_up 5) (barcode_or_name demo (strip (py ''9Z''))) =
     SelectData [py ''id-9z''] \<and>
   get_class_id_by_name demo (remote_up 5) (py ''9Z'') = (Some (py ''id-9z''), demo_learned) \<and>
   classes_dict demo_learned (py ''9Z'') = Some (py ''id-9z'') \<and>
   get_class_id_by_name
     (run demo_learned [Typed (py ''9Z''), ReturnKey (remote_down 9), RestoreFlag, RestoreMarker])
     (remote_down 70) (py ''9Z'') =
   (Some (py ''id-9z''),
    run demo_learned [Typed (py ''9Z''), ReturnKey (remote_down 9), RestoreFlag, RestoreMarker])"
proof -
  have n: "barcode_or_name demo (strip (py ''B123'')) = py ''7A''"
          "barcode_or_name demo (strip (py ''9Z'')) = py ''9Z''"
    by (simp_all add: barcode_or_name_def demo_def py_def strip_def is_whitespace_def)
  have a: "classes_dict demo (py ''7A'') = Some (py ''id-7a'')"
    by (simp add: demo_def)
  have b: "classes_dict demo (py ''9Z'') = None \<and> supabase demo \<and>
           select_classes (remote_up 5) (py ''9Z'') = SelectData [py ''id-9z'']"
    by (simp add: demo_def remote_up_def py_def)
  have c: "demo\<lparr>remote_log := remote_log demo @ [SelectClass (py ''9Z'')],
                 classes_dict := (classes_dict demo)(py ''9Z'' \<mapsto> py ''id-9z'')\<rparr> = demo_learned"
    by (simp add: demo_learned_def demo_def)
  have 1: "get_class_id_by_name demo (remote_down 5) (py ''B123'') = (Some (py ''id-7a''), demo)"
    using resolved_name_is_cached [of demo "py ''B123''" "py ''id-7a''" "remote_down 5"] n a
    by simp
  have 2: "get_class_id_by_name demo (remote_up 5) (py ''9Z'') = (Some (py ''id-9z''), demo_learned)"
    using resolved_name_is_cached [of demo "py ''9Z''" "py ''id-9z''" "remote_up 5" "[]"] n b c
    by simp
  from 2 resolved_name_is_cached
    [of demo "py ''9Z''" "py ''id-9z''" "remote_up 5" "[]" demo_learned] n
  have 3: "classes_dict demo_learned (py ''9Z'') = Some (py ''id-9z'') \<and>
     (\<forall>es w'. get_class_id_by_name (run demo_learned es) w' (py ''9Z'') =
        (Some (py ''id-9z''), run demo_learned es))"
    by simp
  from 1 2 3 n a b show ?thesis
    by simp
qed

section \<open>The guard against repeated text\<close>

text \<open>
  C8: once a submission has passed the guards, the tracker is processing, the marker holds
  the trimmed text and the success frame is up. Until the restore thread runs, every
  further call of \<^verbatim>\<open>process_lap\<close> or \<^verbatim>\<open>check_and_process\<close>, whatever the text, and so for
  the text equal to the marker too, changes nothing but what the operator typed: no
  processing, no row, no remote request. After the thread has reset the processing flag
  and before it has cleared the marker, a text that trims to the marker is still ignored.
  When the thread is done, the flag is down, the marker and the entry field are empty and
  the frame is gone; the same raw text then passes the guards again and is logged again.
\<close>

theorem repeated_text_ignored_until_restore:
  assumes "passes_guards s"
  shows "processing (process_lap s w) \<and>
         last_processed_text (process_lap s w) = strip (input_var s) \<and>
         feedback (process_lap s w) \<noteq> None \<and>
         (\<forall>t w'. process_lap ((process_lap s w)\<lparr>input_var := t\<rparr>) w' =
                    (process_lap s w)\<lparr>input_var := t\<rparr> \<and>
                  check_and_process ((process_lap s w)\<lparr>input_var := t\<rparr>) w' =
                    (process_lap s w)\<lparr>input_var := t\<rparr>) \<and>
         (\<forall>t w'. strip t = last_processed_text (process_lap s w) \<longrightarrow>
                  process_lap ((restore_main_flag (process_lap s w))\<lparr>input_var := t\<rparr>) w' =
                    (restore_main_flag (process_lap s w))\<lparr>input_var := t\<rparr> \<and>
                  check_and_process ((restore_main_flag (process_lap s w))\<lparr>input_var := t\<rparr>) w' =
                    (restore_main_flag (process_lap s w))\<lparr>input_var := t\<rparr>) \<and>
         strip (last_processed_text (process_lap s w)) = last_processed_text (process_lap s w) \<and>
         \<not> processing (restore_main (process_lap s w)) \<and>
         last_processed_text (restore_main (process_lap s w)) = [] \<and>
         feedback (restore_main (process_lap s w)) = None \<and>
         input_var (restore_main (process_lap s w)) = [] \<and>
         passes_guards ((restore_main (process_lap s w))\<lparr>input_var := input_var s\<rparr>) \<and>
         (\<forall>w'. csv_append_ok w' \<longrightarrow>
            length (csv_file (process_lap
              ((restore_main (process_lap s w))\<lparr>input_var := input_var s\<rparr>) w')) =
            length (csv_file (process_lap s w)) + 1)"
proof -
  let ?s1 = "process_lap s w"
  have p: "processing ?s1" and l: "last_processed_text ?s1 = strip (input_var s)"
    and f: "feedback ?s1 \<noteq> None"
    using assms by (simp_all add: process_lap_run)
  have busy: "process_lap (?s1\<lparr>input_var := t\<rparr>) w' = ?s1\<lparr>input_var := t\<rparr>" for t w'
    using p by (simp add: process_lap_skip passes_guards_input)
  have same: "process_lap ((restore_main_flag ?s1)\<lparr>input_var := t\<rparr>) w' =
      (restore_main_flag ?s1)\<lparr>input_var := t\<rparr>"
    if "strip t = last_processed_text ?s1" for t w'
    using that by (simp add: process_lap_skip passes_guards_def restore_main_flag_def)
  have again: "passes_guards ((restore_main ?s1)\<lparr>input_var := input_var s\<rparr>)"
    using assms
    by (simp add: passes_guards_def restore_main_def restore_main_flag_def restore_main_marker_def)
  have rows: "length (csv_file (process_lap ((restore_main ?s1)\<lparr>input_var := input_var s\<rparr>) w')) =
      length (csv_file ?s1) + 1" if "csv_append_ok w'" for w'
    using that again
    by (simp add: process_lap_run restore_main_def restore_main_flag_def restore_main_marker_def)
  show ?thesis
    using p l f busy same again rows
    by (simp add: check_and_process_eq strip_idem restore_main_def restore_main_flag_def
          restore_main_marker_def)
qed

theorem repeated_text_ignored_until_restore_witness:
  "passes_guards (demo\<lparr>input_var := py ''B123''\<rparr>) \<and>
   processing (process_lap (demo\<lparr>input_var := py ''B123''\<rparr>) (remote_up 5)) \<and>
   last_processed_text (process_lap (demo\<lparr>input_var := py ''B123''\<rparr>) (remote_up 5)) =
     py ''B123'' \<and>
   process_lap ((process_lap (demo\<lparr>input_var := py ''B123''\<rparr>) (remote_up 5))
       \<lparr>input_var := py ''B123''\<rparr>) (remote_up 6) =
     (process_lap (demo\<lparr>input_var := py ''B123''\<rparr>) (remote_up 5))\<lparr>input_var := py ''B123''\<rparr> \<and>
   check_and_process
       ((restore_main_flag (process_lap (demo\<lparr>input_var := py ''B123''\<rparr>) (remote_up 5)))
          \<lparr>input_var := py ''B123''\<rparr>) (remote_up 7) =
     (restore_main_flag (process_lap (demo\<lparr>input_var := py ''B123''\<rparr>) (remote_up 5)))
       \<lparr>input_var := py ''B123''\<rparr> \<and>
   last_processed_text
     (restore_main (process_lap (demo\<lparr>input_var := py ''B123''\<rparr>) (remote_up 5))) = [] \<and>
   passes_guards
     ((restore_main (process_lap (demo\<lparr>input_var := py ''B123''\<rparr>) (remote_up 5)))
        \<lparr>input_var := py ''B123''\<rparr>) \<and>
   length (csv_file (process_lap
     ((restore_main (process_lap (demo\<lparr>input_var := py ''B123''\<rparr>) (remote_up 5)))
        \<lparr>input_var := py ''B123''\<rparr>) (remote_up 8))) =
   length (csv_file (process_lap (demo\<lparr>input_var := py ''B123''\<rparr>) (remote_up 5))) + 1"
proof -
  let ?s = "demo\<lparr>input_var := py ''B123''\<rparr>"
  have t: "strip (py ''B123'') = py ''B123''"
    by (simp add: py_def strip_def is_whitespace_def)
  have h: "passes_guards ?s"
    by (simp add: passes_guards_def demo_def t) (simp add: py_def)
  have i: "input_var ?s = py ''B123''"
    by simp
  have c: "csv_append_ok (remote_up 8)"
    by (simp add: remote_up_def)
  note T = repeated_text_ignored_until_restore [OF h, of "remote_up 5", unfolded i]
  from T have 1: "last_processed_text (process_lap ?s (remote_up 5)) = py ''B123''"
    by (simp add: t)
  from T have 2: "process_lap ((process_lap ?s (remote_up 5))\<lparr>input_var := py ''B123''\<rparr>) (remote_up 6) =
      (process_lap ?s (remote_up 5))\<lparr>input_var := py ''B123''\<rparr>"
    by blast
  from T 1 t have 3: "check_and_process
       ((restore_main_flag (process_lap ?s (remote_up 5)))\<lparr>input_var := py ''B123''\<rparr>) (remote_up 7) =
     (restore_main_flag (process_lap ?s (remote_up 5)))\<lparr>input_var := py ''B123''\<rparr>"
    by metis
  from T c have 4: "length (csv_file (process_lap
     ((restore_main (process_lap ?s (remote_up 5)))\<lparr>input_var := py ''B123''\<rparr>) (remote_up 8))) =
     length (csv_file (process_lap ?s (remote_up 5))) + 1"
    by blast
  from T h 1 2 3 4 show ?thesis
    by blast
qed

section \<open>What is sent and what is logged\<close>

text \<open>
  C6: when the display name of a processed submission is a recent scan, no insert is sent
  to the remote store, whether or not the class id was resolved: the inserts among the
  remote requests are the same before and after, and the recent scans are untouched. The
  submission is only logged: when the append to the log file goes through, the file has
  one more row, with the id (or \<^verbatim>\<open>UNKNOWN\<close>), success false and scan type
  \<^verbatim>\<open>DUPLICATE_SCAN\<close>.
\<close>

theorem duplicate_scan_sends_no_insert:
  assumes "passes_guards s" and "is_recent_scan s (now_check w) (lap_name s)"
  shows "filter is_insert (remote_log (process_lap s w)) = filter is_insert (remote_log s) \<and>
         recent_scans (process_lap s w) = recent_scans s \<and>
         (csv_append_ok w \<longrightarrow>
            csv_file (process_lap s w) = csv_file s @ [last (csv_file (process_lap s w))] \<and>
            row_class_id (last (csv_file (process_lap s w))) =
              or_unknown (fst (get_class_id_by_name s w (input_var s))) \<and>
            row_success (last (csv_file (process_lap s w))) = False \<and>
            row_scan_type (last (csv_file (process_lap s w))) = py ''DUPLICATE_SCAN'')"
proof -
  from assms(2) have d: "lap_duplicate s w"
    by (simp add: lap_duplicate_def)
  then have "lap_inserts s w = []" and "lap_success s w = False"
    by (simp_all add: lap_inserts_def lap_success_def split: option.splits)
  with assms(1) d show ?thesis
    by (simp add: process_lap_inserts process_lap_last_row lap_row_fields lap_id_def)
       (simp add: process_lap_run)
qed

theorem duplicate_scan_sends_no_insert_witness:
  "passes_guards demo_scanned \<and>
   is_recent_scan demo_scanned (now_check (remote_up 110000000)) (lap_name demo_scanned) \<and>
   fst (get_class_id_by_name demo_scanned (remote_up 110000000) (input_var demo_scanned)) =
     Some (py ''id-7a'') \<and>
   filter is_insert (remote_log (process_lap demo_scanned (remote_up 110000000))) = [] \<and>
   recent_scans (process_lap demo_scanned (remote_up 110000000)) = recent_scans demo_scanned \<and>
   length (csv_file (process_lap demo_scanned (remote_up 110000000))) = 1 \<and>
   row_class_id (last (csv_file (process_lap demo_scanned (remote_up 110000000)))) = py ''id-7a'' \<and>
   row_success (last (csv_file (process_lap demo_scanned (remote_up 110000000)))) = False \<and>
   row_scan_type (last (csv_file (process_lap demo_scanned (remote_up 110000000)))) =
     py ''DUPLICATE_SCAN''"
proof -
  let ?w = "remote_up 110000000"
  have h: "passes_guards demo_scanned"
    by (simp add: passes_guards_def demo_scanned_def demo_def demo_texts)
  have n: "lap_name demo_scanned = py ''7A''"
    by (simp add: lap_name_def barcode_or_name_def demo_scanned_def demo_def demo_texts)
  have d: "is_recent_scan demo_scanned (now_check ?w) (lap_name demo_scanned)"
    unfolding n by (simp add: is_recent_scan_def demo_scanned_def demo_def remote_up_def)
  have i: "fst (get_class_id_by_name demo_scanned ?w (input_var demo_scanned)) = Some (py ''id-7a'')"
    by (simp add: get_class_id_by_name_def barcode_or_name_def demo_scanned_def demo_def demo_texts
          Let_def)
  have c: "csv_append_ok ?w" "csv_file demo_scanned = []" "remote_log demo_scanned = []"
    by (simp_all add: remote_up_def demo_scanned_def demo_def)
  have u: "or_unknown (Some (py ''id-7a'')) = py ''id-7a''"
    by (simp add: or_unknown_def demo_texts)
  from duplicate_scan_sends_no_insert [OF h d] c i u
  have "filter is_insert (remote_log (process_lap demo_scanned ?w)) = [] \<and>
        recent_scans (process_lap demo_scanned ?w) = recent_scans demo_scanned \<and>
        csv_file (process_lap demo_scanned ?w) = [last (csv_file (process_lap demo_scanned ?w))] \<and>
        row_class_id (last (csv_file (process_lap demo_scanned ?w))) = py ''id-7a'' \<and>
        row_success (last (csv_file (process_lap demo_scanned ?w))) = False \<and>
        row_scan_type (last (csv_file (process_lap demo_scanned ?w))) = py ''DUPLICATE_SCAN''"
    by simp
  moreover from this have "length (csv_file (process_lap demo_scanned ?w)) = 1"
    by (metis length_Cons list.size(3) One_nat_def)
  ultimately show ?thesis
    using h d i by simp
qed

text \<open>
  C4: every submission that passes the guards writes exactly one row to the log, whatever
  the remote store answers to the query and to the insert (the append to the log file
  going through; the source catches a failing append and only prints it). The row says
  success only if an id was resolved and the scan was no duplicate; more exactly, success
  is: an id that is not empty, no duplicate, and the remote insert acknowledged.
\<close>

theorem one_log_row_per_processed_submission:
  assumes "passes_guards s" and "csv_append_ok w"
  shows "csv_file (process_lap s w) = csv_file s @ [last (csv_file (process_lap s w))] \<and>
         length (csv_file (process_lap s w)) = length (csv_file s) + 1 \<and>
         (\<forall>sel ins.
            length (csv_file (process_lap s (w\<lparr>select_classes := sel, insert_laps := ins\<rparr>))) =
            length (csv_file s) + 1) \<and>
         (row_success (last (csv_file (process_lap s w))) \<longrightarrow>
            (\<exists>i. fst (get_class_id_by_name s w (input_var s)) = Some i \<and> i \<noteq> []) \<and>
            \<not> is_recent_scan s (now_check w) (lap_name s)) \<and>
         row_success (last (csv_file (process_lap s w))) =
           (\<exists>i. fst (get_class_id_by_name s w (input_var s)) = Some i \<and> i \<noteq> [] \<and>
                \<not> is_recent_scan s (now_check w) (lap_name s) \<and>
                fst (add_lap_to_supabase s w i))"
proof -
  have a: "csv_file (process_lap s w') = csv_file s @ [lap_row s w']" if "csv_append_ok w'" for w'
    using assms(1) that by (simp add: process_lap_run)
  have b: "lap_success s w =
      (\<exists>i. fst (get_class_id_by_name s w (input_var s)) = Some i \<and> i \<noteq> [] \<and>
           \<not> is_recent_scan s (now_check w) (lap_name s) \<and> fst (add_lap_to_supabase s w i))"
    by (simp add: lap_success_def lap_id_def lap_duplicate_def split: option.splits)
  have c: "csv_append_ok (w\<lparr>select_classes := sel, insert_laps := ins\<rparr>)" for sel ins
    using assms(2) by simp
  show ?thesis
    using a [OF assms(2)] a [OF c] b by (auto simp: lap_row_fields)
qed

theorem one_log_row_per_processed_submission_witness:
  "passes_guards (demo\<lparr>input_var := py ''B123''\<rparr>) \<and> csv_append_ok (remote_up 5) \<and>
   length (csv_file (process_lap (demo\<lparr>input_var := py ''B123''\<rparr>) (remote_up 5))) = 1 \<and>
   length (csv_file (process_lap (demo\<lparr>input_var := py ''B123''\<rparr>)
     (remote_up 5\<lparr>select_classes := \<lambda>n. SelectRaises, insert_laps := \<lambda>i ts. InsertRaises\<rparr>))) = 1 \<and>
   row_success (last (csv_file (process_lap (demo\<lparr>input_var := py ''B123''\<rparr>) (remote_up 5)))) =
     True \<and>
   fst (get_class_id_by_name (demo\<lparr>input_var := py ''B123''\<rparr>) (remote_up 5) (py ''B123'')) =
     Some (py ''id-7a'') \<and>
   is_recent_scan (demo\<lparr>input_var := py ''B123''\<rparr>) (now_check (remote_up 5))
     (lap_name (demo\<lparr>input_var := py ''B123''\<rparr>)) = False"
proof -
  let ?s = "demo\<lparr>input_var := py ''B123''\<rparr>"
  have h: "passes_guards ?s"
    by (simp add: passes_guards_def demo_def demo_texts)
  have c: "csv_append_ok (remote_up 5)" "csv_file ?s = []" "input_var ?s = py ''B123''"
    by (simp_all add: remote_up_def demo_def)
  have i: "fst (get_class_id_by_name ?s (remote_up 5) (py ''B123'')) = Some (py ''id-7a'')"
    by (simp add: get_class_id_by_name_def barcode_or_name_def demo_def demo_texts Let_def)
  have d: "is_recent_scan ?s (now_check (remote_up 5)) (lap_name ?s) = False"
    by (simp add: is_recent_scan_def demo_def)
  have a: "fst (add_lap_to_supabase ?s (remote_up 5) (py ''id-7a''))"
    by (simp add: add_lap_to_supabase_def demo_def remote_up_def)
  note T = one_log_row_per_processed_submission [OF h c(1), unfolded c(2,3)]
  from T have 1: "length (csv_file (process_lap ?s (remote_up 5))) = 1"
    by simp
  from T have 2: "length (csv_file (process_lap ?s
     (remote_up 5\<lparr>select_classes := \<lambda>n. SelectRaises, insert_laps := \<lambda>i ts. InsertRaises\<rparr>))) = 1"
    by simp
  from T i d a have 3: "row_success (last (csv_file (process_lap ?s (remote_up 5)))) = True"
    by (simp add: demo_texts)
  from h c 1 2 3 i d show ?thesis
    by simp
qed

text \<open>
  C3, as the code has it: an input that is no barcode and no local class name, and for
  which the remote store gives nothing (no connection, an empty answer or an exception),
  resolves to no id (\<^verbatim>\<open>None\<close>). The submission is still logged (the append to the log
  file going through): one row with the trimmed input as class name, success false, and
  in the class id column not a null value but the text \<^verbatim>\<open>UNKNOWN\<close>, which
  \<^verbatim>\<open>add_lap_to_csv\<close> writes for a missing id. No insert is sent.
\<close>

theorem unmatched_input_logged_unknown:
  assumes "passes_guards s"
    and "barcode_dict s (strip (input_var s)) = None"
    and "classes_dict s (strip (input_var s)) = None"
    and "\<not> supabase s \<or> select_classes w (strip (input_var s)) = SelectData [] \<or>
         select_classes w (strip (input_var s)) = SelectRaises"
    and "csv_append_ok w"
  shows "fst (get_class_id_by_name s w (input_var s)) = None \<and>
         csv_file (process_lap s w) = csv_file s @
           [\<lparr>row_timestamp = now_csv w,
             row_class_name = strip (input_var s),
             row_class_id = py ''UNKNOWN'',
             row_success = False,
             row_scan_type = (if is_recent_scan s (now_check w) (strip (input_var s))
                              then py ''DUPLICATE_SCAN'' else py ''NORMAL'')\<rparr>] \<and>
         filter is_insert (remote_log (process_lap s w)) = filter is_insert (remote_log s) \<and>
         recent_scans (process_lap s w) = recent_scans s"
proof -
  have n: "lap_name s = strip (input_var s)"
    using assms(2) by (simp add: lap_name_def barcode_or_name_def)
  have i: "lap_id s w = None"
    using assms(2,3,4) unfolding lap_id_def
    by (auto simp: get_class_id_by_name_def barcode_or_name_def Let_def)
  have r: "lap_row s w =
      \<lparr>row_timestamp = now_csv w, row_class_name = strip (input_var s),
        row_class_id = py ''UNKNOWN'', row_success = False,
        row_scan_type = (if is_recent_scan s (now_check w) (strip (input_var s))
                         then py ''DUPLICATE_SCAN'' else py ''NORMAL'')\<rparr>"
    using n i by (simp add: lap_row_def lap_success_def lap_duplicate_def or_unknown_def strip_idem)
  have "lap_inserts s w = []" and "lap_resolved s w = False"
    using i by (simp_all add: lap_inserts_def lap_resolved_def)
  with assms(1,5) i r show ?thesis
    by (simp add: process_lap_inserts lap_id_def) (simp add: process_lap_run)
qed

theorem unmatched_input_logged_unknown_witness:
  "passes_guards (demo\<lparr>input_var := py ''zz''\<rparr>) \<and>
   barcode_dict (demo\<lparr>input_var := py ''zz''\<rparr>) (strip (py ''zz'')) = None \<and>
   classes_dict (demo\<lparr>input_var := py ''zz''\<rparr>) (strip (py ''zz'')) = None \<and>
   select_classes (remote_up 5) (strip (py ''zz'')) = SelectData [] \<and>
   csv_append_ok (remote_up 5) \<and>
   fst (get_class_id_by_name (demo\<lparr>input_var := py ''zz''\<rparr>) (remote_up 5) (py ''zz'')) = None \<and>
   csv_file (process_lap (demo\<lparr>input_var := py ''zz''\<rparr>) (remote_up 5)) =
     [\<lparr>row_timestamp = 8, row_class_name = py ''zz'', row_class_id = py ''UNKNOWN'',
       row_success = False, row_scan_type = py ''NORMAL''\<rparr>] \<and>
   filter is_insert (remote_log (process_lap (demo\<lparr>input_var := py ''zz''\<rparr>) (remote_up 5))) = []"
proof -
  let ?s = "demo\<lparr>input_var := py ''zz''\<rparr>"
  have h: "passes_guards ?s"
    by (simp add: passes_guards_def demo_def demo_texts)
  have b: "barcode_dict ?s (strip (input_var ?s)) = None"
    and k: "classes_dict ?s (strip (input_var ?s)) = None"
    by (simp_all add: demo_def demo_texts)
  have r: "\<not> supabase ?s \<or> select_classes (remote_up 5) (strip (input_var ?s)) = SelectData [] \<or>
           select_classes (remote_up 5) (strip (input_var ?s)) = SelectRaises"
    by (simp add: remote_up_def demo_texts) (simp add: py_def)
  have c: "csv_append_ok (remote_up 5)"
    by (simp add: remote_up_def)
  have e: "now_csv (remote_up 5) = 8" "is_recent_scan ?s (now_check (remote_up 5)) (py ''zz'') = False"
      "csv_file ?s = []" "remote_log ?s = []" "input_var ?s = py ''zz''"
      "select_classes (remote_up 5) (py ''zz'') = SelectData []"
    by (simp_all add: remote_up_def is_recent_scan_def demo_def) (simp add: py_def)
  from unmatched_input_logged_unknown [OF h b k r c] h b k c e show ?thesis
    by (simp add: demo_texts)
qed

text \<open>
  The claim that the row of an unmatched input has a null identifier in the class id
  column fails: for the input zz, which nothing matches, the id resolved is \<^verbatim>\<open>None\<close> but
  the column holds the seven letters of \<^verbatim>\<open>UNKNOWN\<close>, a text that is not empty. The same
  text is written for a class that was found with an empty id (7E here), so the column
  does not tell the two apart.
\<close>

theorem unmatched_input_logged_as_text_unknown:
  "fst (get_class_id_by_name (demo\<lparr>input_var := py ''zz''\<rparr>) (remote_up 5) (py ''zz'')) = None \<and>
   row_class_id (last (csv_file (process_lap (demo\<lparr>input_var := py ''zz''\<rparr>) (remote_up 5)))) =
     py ''UNKNOWN'' \<and>
   py ''UNKNOWN'' = [85, 78, 75, 78, 79, 87, 78] \<and>
   row_class_id (last (csv_file (process_lap (demo\<lparr>input_var := py ''zz''\<rparr>) (remote_up 5)))) \<noteq>
     [] \<and>
   fst (get_class_id_by_name (demo\<lparr>classes_dict := [py ''7E'' \<mapsto> []], input_var := py ''7E''\<rparr>)
     (remote_up 5) (py ''7E'')) = Some [] \<and>
   row_class_id (last (csv_file (process_lap
     (demo\<lparr>classes_dict := [py ''7E'' \<mapsto> []], input_var := py ''7E''\<rparr>) (remote_up 5)))) =
     py ''UNKNOWN''"
proof -
  let ?w = "remote_up 5"
  let ?s = "demo\<lparr>input_var := py ''zz''\<rparr>"
  let ?e = "demo\<lparr>classes_dict := [py ''7E'' \<mapsto> []], input_var := py ''7E''\<rparr>"
  have t: "strip (py ''7E'') = py ''7E''" "py ''7E'' \<noteq> []" "py ''7E'' \<noteq> py ''B123''"
    "py ''zz'' \<noteq> py ''9Z''"
    by (simp_all add: py_def strip_def is_whitespace_def)
  have u: "py ''UNKNOWN'' = [85, 78, 75, 78, 79, 87, 78]"
    by (simp add: py_def)
  have c: "csv_append_ok ?w"
    by (simp add: remote_up_def)
  have hs: "passes_guards ?s" and he: "passes_guards ?e"
    by (simp_all add: passes_guards_def demo_def demo_texts t)
  have gs: "fst (get_class_id_by_name ?s ?w (py ''zz'')) = None"
    by (simp add: get_class_id_by_name_def barcode_or_name_def demo_def demo_texts remote_up_def
          t Let_def)
  have ge: "fst (get_class_id_by_name ?e ?w (py ''7E'')) = Some []"
    by (simp add: get_class_id_by_name_def barcode_or_name_def demo_def t Let_def)
  have i1: "lap_id ?s ?w = None" and i2: "lap_id ?e ?w = Some []"
    using gs ge by (simp_all add: lap_id_def)
  have rs: "row_class_id (last (csv_file (process_lap ?s ?w))) = py ''UNKNOWN''"
    by (simp add: process_lap_last_row [OF hs c] lap_row_fields i1 or_unknown_def)
  have re: "row_class_id (last (csv_file (process_lap ?e ?w))) = py ''UNKNOWN''"
    by (simp add: process_lap_last_row [OF he c] lap_row_fields i2 or_unknown_def)
  from gs ge rs re u show ?thesis
    by simp
qed

section \<open>When the scan time is recorded\<close>

text \<open>
  C1, as the code has it: a processed submission changes the recent scans exactly when its
  id is resolved and not empty and the scan is no duplicate; then the display name is
  mapped to the time \<^verbatim>\<open>update_recent_scan\<close> reads, right after the remote insert was tried.
  The answer of the remote store to the insert plays no part: the recent scans are the
  same for every answer, so a failed insert starts the 30 seconds as an acknowledged one
  does.
\<close>

theorem scan_time_marked_whatever_the_insert:
  assumes "passes_guards s"
  shows "recent_scans (process_lap s w) =
           (if (\<exists>i. fst (get_class_id_by_name s w (input_var s)) = Some i \<and> i \<noteq> []) \<and>
               \<not> is_recent_scan s (now_check w) (lap_name s)
            then (recent_scans s)(lap_name s \<mapsto> now_mark w)
            else recent_scans s) \<and>
         (\<forall>ins. recent_scans (process_lap s (w\<lparr>insert_laps := ins\<rparr>)) =
                recent_scans (process_lap s w)) \<and>
         ((\<exists>i. fst (get_class_id_by_name s w (input_var s)) = Some i \<and> i \<noteq> []) \<and>
          \<not> is_recent_scan s (now_check w) (lap_name s) \<longrightarrow>
            is_recent_scan (process_lap s w) (now_mark w + 29999999) (lap_name s))"
proof -
  have a: "recent_scans (process_lap s w') =
      (if (\<exists>i. fst (get_class_id_by_name s w' (input_var s)) = Some i \<and> i \<noteq> []) \<and>
          \<not> is_recent_scan s (now_check w') (lap_name s)
       then (recent_scans s)(lap_name s \<mapsto> now_mark w') else recent_scans s)" for w'
    using assms by (auto simp: process_lap_recent_scans lap_resolved_iff lap_duplicate_def)
  have b: "recent_scans (process_lap s (w\<lparr>insert_laps := ins\<rparr>)) = recent_scans (process_lap s w)"
    for ins
  proof -
    have "now_check (w\<lparr>insert_laps := ins\<rparr>) = now_check w"
      and "now_mark (w\<lparr>insert_laps := ins\<rparr>) = now_mark w"
      by simp_all
    then show ?thesis
      unfolding a get_id_insert_answer by (simp only:)
  qed
  have c: "is_recent_scan (process_lap s w) (now_mark w + 29999999) (lap_name s)"
    if "lap_resolved s w \<and> \<not> lap_duplicate s w"
    using that assms by (simp add: is_recent_scan_def process_lap_recent_scans)
  from b have b': "\<forall>ins. recent_scans (process_lap s (w\<lparr>insert_laps := ins\<rparr>)) =
      recent_scans (process_lap s w)"
    by blast
  from c have c': "(\<exists>i. fst (get_class_id_by_name s w (input_var s)) = Some i \<and> i \<noteq> []) \<and>
      \<not> is_recent_scan s (now_check w) (lap_name s) \<longrightarrow>
      is_recent_scan (process_lap s w) (now_mark w + 29999999) (lap_name s)"
    unfolding lap_resolved_iff lap_duplicate_def by blast
  show ?thesis
    using a [of w] b' c' by (intro conjI)
qed

theorem scan_time_marked_whatever_the_insert_witness:
  "passes_guards (demo\<lparr>input_var := py ''B123''\<rparr>) \<and>
   fst (get_class_id_by_name (demo\<lparr>input_var := py ''B123''\<rparr>) (remote_down 1000000)
     (py ''B123'')) = Some (py ''id-7a'') \<and>
   is_recent_scan (demo\<lparr>input_var := py ''B123''\<rparr>) (now_check (remote_down 1000000))
     (lap_name (demo\<lparr>input_var := py ''B123''\<rparr>)) = False \<and>
   recent_scans (process_lap (demo\<lparr>input_var := py ''B123''\<rparr>) (remote_down 1000000)) =
     [py ''7A'' \<mapsto> 1000002] \<and>
   recent_scans (process_lap (demo\<lparr>input_var := py ''B123''\<rparr>)
       (remote_down 1000000\<lparr>insert_laps := \<lambda>i ts. InsertData [(i, ts)]\<rparr>)) =
     recent_scans (process_lap (demo\<lparr>input_var := py ''B123''\<rparr>) (remote_down 1000000)) \<and>
   is_recent_scan (process_lap (demo\<lparr>input_var := py ''B123''\<rparr>) (remote_down 1000000))
     (now_mark (remote_down 1000000) + 29999999) (lap_name (demo\<lparr>input_var := py ''B123''\<rparr>))"
proof -
  let ?s = "demo\<lparr>input_var := py ''B123''\<rparr>"
  let ?w = "remote_down 1000000"
  have h: "passes_guards ?s"
    by (simp add: passes_guards_def demo_def demo_texts)
  have n: "lap_name ?s = py ''7A''"
    by (simp add: lap_name_def barcode_or_name_def demo_def demo_texts)
  have i: "fst (get_class_id_by_name ?s ?w (py ''B123'')) = Some (py ''id-7a'')"
    by (simp add: get_class_id_by_name_def barcode_or_name_def demo_def demo_texts Let_def)
  have d: "is_recent_scan ?s (now_check ?w) (lap_name ?s) = False"
    by (simp add: is_recent_scan_def demo_def)
  have e: "input_var ?s = py ''B123''" "recent_scans ?s = Map.empty" "now_mark ?w = 1000002"
    by (simp_all add: demo_def remote_down_def)
  note T = scan_time_marked_whatever_the_insert [OF h, of ?w, unfolded e]
  from T i d n have 1: "recent_scans (process_lap ?s ?w) = [py ''7A'' \<mapsto> 1000002]"
    by (simp add: demo_texts)
  from T have 2: "recent_scans (process_lap ?s (?w\<lparr>insert_laps := \<lambda>i ts. InsertData [(i, ts)]\<rparr>)) =
     recent_scans (process_lap ?s ?w)"
    by blast
  from T i d have 3: "is_recent_scan (process_lap ?s ?w) (1000002 + 29999999) (lap_name ?s)"
    by (simp add: demo_texts)
  from h i d 1 2 3 e show ?thesis
    by simp
qed

text \<open>
  The claim that the scan time is recorded only after a successful remote insert fails
  here: the remote store raises on the insert, the row says success false, and still
  class 7A is marked at 1.000002 s, is a recent scan at 11 s, and the next submission of
  its barcode at 11 s is logged as \<^verbatim>\<open>DUPLICATE_SCAN\<close>.
\<close>

theorem failed_insert_still_starts_cooldown:
  "remote_log (process_lap (demo\<lparr>input_var := py ''B123''\<rparr>) (remote_down 1000000)) =
     [InsertLap (py ''id-7a'') 1000001] \<and>
   insert_laps (remote_down 1000000) (py ''id-7a'') 1000001 = InsertRaises \<and>
   fst (add_lap_to_supabase (demo\<lparr>input_var := py ''B123''\<rparr>) (remote_down 1000000)
     (py ''id-7a'')) = False \<and>
   csv_file (process_lap (demo\<lparr>input_var := py ''B123''\<rparr>) (remote_down 1000000)) =
     [\<lparr>row_timestamp = 1000003, row_class_name = py ''B123'' @ arrow @ py ''7A'',
       row_class_id = py ''id-7a'', row_success = False, row_scan_type = py ''NORMAL''\<rparr>] \<and>
   recent_scans (demo\<lparr>input_var := py ''B123''\<rparr>) (py ''7A'') = None \<and>
   recent_scans (process_lap (demo\<lparr>input_var := py ''B123''\<rparr>) (remote_down 1000000))
     (py ''7A'') = Some 1000002 \<and>
   is_recent_scan (process_lap (demo\<lparr>input_var := py ''B123''\<rparr>) (remote_down 1000000))
     11000000 (py ''7A'') = True \<and>
   row_scan_type (last (csv_file (process_lap
     ((restore_main (process_lap (demo\<lparr>input_var := py ''B123''\<rparr>) (remote_down 1000000)))
        \<lparr>input_var := py ''B123''\<rparr>) (remote_up 11000000)))) = py ''DUPLICATE_SCAN''"
proof -
  let ?s = "demo\<lparr>input_var := py ''B123''\<rparr>"
  let ?w = "remote_down 1000000"
  have h: "passes_guards ?s"
    by (simp add: passes_guards_def demo_def demo_texts)
  have n: "lap_name ?s = py ''7A''"
    by (simp add: lap_name_def barcode_or_name_def demo_def demo_texts)
  have g: "get_class_id_by_name ?s ?w (input_var ?s) = (Some (py ''id-7a''), ?s)"
    by (simp add: get_class_id_by_name_def barcode_or_name_def demo_def demo_texts Let_def)
  have i: "lap_id ?s ?w = Some (py ''id-7a'')"
    using g by (simp add: lap_id_def)
  have d: "lap_duplicate ?s ?w = False"
    by (simp add: lap_duplicate_def is_recent_scan_def demo_def)
  have f: "fst (add_lap_to_supabase ?s ?w (py ''id-7a'')) = False"
    by (simp add: insert_eq remote_down_def)
  have r: "lap_row ?s ?w =
      \<lparr>row_timestamp = 1000003, row_class_name = py ''B123'' @ arrow @ py ''7A'',
        row_class_id = py ''id-7a'', row_success = False, row_scan_type = py ''NORMAL''\<rparr>"
    using i d f n
    by (simp add: lap_row_def lap_success_def or_unknown_def demo_texts remote_down_def)
       (simp add: py_def arrow_def strip_def is_whitespace_def)
  have s1: "process_lap ?s ?w =
      ?s\<lparr>processing := True, last_processed_text := py ''B123'',
         recent_scans := [py ''7A'' \<mapsto> 1000002],
         feedback := Some (py ''LAP TOEGEVOEGD!'' @ [10] @ py ''7A''),
         csv_file := [\<lparr>row_timestamp = 1000003, row_class_name = py ''B123'' @ arrow @ py ''7A'',
           row_class_id = py ''id-7a'', row_success = False, row_scan_type = py ''NORMAL''\<rparr>],
         remote_log := [InsertLap (py ''id-7a'') 1000001]\<rparr>"
    using process_lap_run [OF h, of ?w] g i d n r
    by (simp add: lap_resolved_def lap_feedback_def lap_inserts_def demo_texts)
       (simp add: demo_def remote_down_def)
  let ?t = "(restore_main (process_lap ?s ?w))\<lparr>input_var := py ''B123''\<rparr>"
  have h2: "passes_guards ?t"
    by (simp add: s1 passes_guards_def restore_main_def restore_main_flag_def
          restore_main_marker_def demo_texts)
  have n2: "lap_name ?t = py ''7A''"
    unfolding s1
    by (simp add: lap_name_def barcode_or_name_def restore_main_def restore_main_flag_def
          restore_main_marker_def demo_def demo_texts)
  have d2: "lap_duplicate ?t (remote_up 11000000)"
    unfolding lap_duplicate_def n2
    by (simp add: s1 is_recent_scan_def restore_main_def restore_main_flag_def
          restore_main_marker_def remote_up_def)
  have c2: "csv_append_ok (remote_up 11000000)"
    by (simp add: remote_up_def)
  have 8: "row_scan_type (last (csv_file (process_lap ?t (remote_up 11000000)))) =
      py ''DUPLICATE_SCAN''"
    using d2 by (simp add: process_lap_last_row [OF h2 c2] lap_row_fields)
  have 1: "remote_log (process_lap ?s ?w) = [InsertLap (py ''id-7a'') 1000001]"
    and 4: "csv_file (process_lap ?s ?w) =
      [\<lparr>row_timestamp = 1000003, row_class_name = py ''B123'' @ arrow @ py ''7A'',
        row_class_id = py ''id-7a'', row_success = False, row_scan_type = py ''NORMAL''\<rparr>]"
    and 6: "recent_scans (process_lap ?s ?w) (py ''7A'') = Some 1000002"
    and 7: "is_recent_scan (process_lap ?s ?w) 11000000 (py ''7A'') = True"
    by (simp_all add: s1 is_recent_scan_def)
  have 2: "insert_laps ?w (py ''id-7a'') 1000001 = InsertRaises"
    and 5: "recent_scans ?s (py ''7A'') = None"
    by (simp_all add: remote_down_def demo_def)
  from 1 2 f 4 5 6 7 8 show ?thesis
    by simp
qed

section \<open>A barcode and the class name it stands for\<close>

text \<open>
  C2, as the code has it: let barcode \<open>B\<close> stand for class name \<open>C\<close> in the barcode table,
  both non-empty and trimmed as the loader stores them, and let \<open>C\<close> be no barcode itself.
  From the same tracker and in the same world, with both texts passing the guards and the
  append to the log file going through, submitting \<open>B\<close> and submitting \<open>C\<close> resolve to the
  same class id, send the same remote requests and mark the same recent scans. Both log
  one row, and the two rows agree in time stamp, class id, success and scan type; the
  class name differs: \<open>C\<close> for the name, \<open>B\<close>, the arrow and \<open>C\<close> for the barcode.
\<close>

theorem barcode_and_name_differ_in_logged_name:
  assumes "barcode_dict s B = Some C" and "barcode_dict s C = None"
    and "strip B = B" and "strip C = C" and "B \<noteq> []" and "C \<noteq> []"
    and "\<not> processing s" and "last_processed_text s \<noteq> B" and "last_processed_text s \<noteq> C"
    and "csv_append_ok w"
  shows "fst (get_class_id_by_name (s\<lparr>input_var := B\<rparr>) w B) =
           fst (get_class_id_by_name (s\<lparr>input_var := C\<rparr>) w C) \<and>
         csv_file (process_lap (s\<lparr>input_var := C\<rparr>) w) =
           csv_file s @ [last (csv_file (process_lap (s\<lparr>input_var := C\<rparr>) w))] \<and>
         row_class_name (last (csv_file (process_lap (s\<lparr>input_var := C\<rparr>) w))) = C \<and>
         csv_file (process_lap (s\<lparr>input_var := B\<rparr>) w) =
           csv_file s @ [(last (csv_file (process_lap (s\<lparr>input_var := C\<rparr>) w)))
                           \<lparr>row_class_name := B @ arrow @ C\<rparr>] \<and>
         recent_scans (process_lap (s\<lparr>input_var := B\<rparr>) w) =
           recent_scans (process_lap (s\<lparr>input_var := C\<rparr>) w) \<and>
         classes_dict (process_lap (s\<lparr>input_var := B\<rparr>) w) =
           classes_dict (process_lap (s\<lparr>input_var := C\<rparr>) w) \<and>
         remote_log (process_lap (s\<lparr>input_var := B\<rparr>) w) =
           remote_log (process_lap (s\<lparr>input_var := C\<rparr>) w)"
proof -
  let ?sB = "s\<lparr>input_var := B\<rparr>" and ?sC = "s\<lparr>input_var := C\<rparr>"
  have ne: "B \<noteq> C"
    using assms(1,2) by auto
  have hB: "passes_guards ?sB" and hC: "passes_guards ?sC"
    using assms by (simp_all add: passes_guards_def)
  have nB: "lap_name ?sB = C" and nC: "lap_name ?sC = C"
    using assms by (simp_all add: lap_name_def barcode_or_name_def)
  have same: "get_class_id_by_name s w B = get_class_id_by_name s w C"
    using assms by (simp add: get_id_same_name barcode_or_name_def)
  have gB: "get_class_id_by_name ?sB w B =
      (fst (get_class_id_by_name s w C), (snd (get_class_id_by_name s w C))\<lparr>input_var := B\<rparr>)"
    and gC: "get_class_id_by_name ?sC w C =
      (fst (get_class_id_by_name s w C), (snd (get_class_id_by_name s w C))\<lparr>input_var := C\<rparr>)"
    by (simp_all add: get_id_input_var same)
  have i: "lap_id ?sB w = lap_id ?sC w"
    by (simp add: lap_id_def gB gC)
  have d: "lap_duplicate ?sB w = lap_duplicate ?sC w"
    by (simp add: lap_duplicate_def nB nC is_recent_scan_def)
  have su: "lap_success ?sB w = lap_success ?sC w"
    by (simp add: lap_success_def i d insert_eq split: option.splits)
  have j: "strip (B @ arrow @ C) = B @ arrow @ C"
    using assms by (simp add: strip_joined)
  have rC: "row_class_name (lap_row ?sC w) = C"
    using assms by (simp add: lap_row_def nC)
  have rB: "lap_row ?sB w = (lap_row ?sC w)\<lparr>row_class_name := B @ arrow @ C\<rparr>"
    using assms ne by (simp add: lap_row_def nB nC i d su j)
  have res: "lap_resolved ?sB w = lap_resolved ?sC w"
    and ins: "lap_inserts ?sB w = lap_inserts ?sC w"
    by (simp_all add: lap_resolved_def lap_inserts_def i d split: option.splits)
  have cB: "csv_file (process_lap ?sB w) = csv_file s @ [lap_row ?sB w]"
    and cC: "csv_file (process_lap ?sC w) = csv_file s @ [lap_row ?sC w]"
    using assms(10) by (simp_all add: process_lap_run [OF hB] process_lap_run [OF hC])
  have rest: "recent_scans (process_lap ?sB w) = recent_scans (process_lap ?sC w)"
    "classes_dict (process_lap ?sB w) = classes_dict (process_lap ?sC w)"
    "remote_log (process_lap ?sB w) = remote_log (process_lap ?sC w)"
    by (simp_all add: process_lap_run [OF hB] process_lap_run [OF hC] res d nB nC ins gB gC)
  show ?thesis
    using cB cC rB rC rest by (simp add: gB gC)
qed

theorem barcode_and_name_differ_in_logged_name_witness:
  "barcode_dict demo (py ''B123'') = Some (py ''7A'') \<and> barcode_dict demo (py ''7A'') = None \<and>
   strip (py ''B123'') = py ''B123'' \<and> strip (py ''7A'') = py ''7A'' \<and>
   py ''B123'' \<noteq> [] \<and> py ''7A'' \<noteq> [] \<and> \<not> processing demo \<and>
   last_processed_text demo \<noteq> py ''B123'' \<and> last_processed_text demo \<noteq> py ''7A'' \<and>
   csv_append_ok (remote_up 5) \<and>
   fst (get_class_id_by_name (demo\<lparr>input_var := py ''B123''\<rparr>) (remote_up 5) (py ''B123'')) =
     fst (get_class_id_by_name (demo\<lparr>input_var := py ''7A''\<rparr>) (remote_up 5) (py ''7A'')) \<and>
   row_class_name (last (csv_file (process_lap (demo\<lparr>input_var := py ''7A''\<rparr>) (remote_up 5)))) =
     py ''7A'' \<and>
   csv_file (process_lap (demo\<lparr>input_var := py ''B123''\<rparr>) (remote_up 5)) =
     [(last (csv_file (process_lap (demo\<lparr>input_var := py ''7A''\<rparr>) (remote_up 5))))
        \<lparr>row_class_name := py ''B123'' @ arrow @ py ''7A''\<rparr>] \<and>
   remote_log (process_lap (demo\<lparr>input_var := py ''B123''\<rparr>) (remote_up 5)) =
     remote_log (process_lap (demo\<lparr>input_var := py ''7A''\<rparr>) (remote_up 5))"
proof -
  have h: "barcode_dict demo (py ''B123'') = Some (py ''7A'')" "barcode_dict demo (py ''7A'') = None"
    "strip (py ''B123'') = py ''B123''" "strip (py ''7A'') = py ''7A''"
    "py ''B123'' \<noteq> []" "py ''7A'' \<noteq> []" "\<not> processing demo"
    "last_processed_text demo \<noteq> py ''B123''" "last_processed_text demo \<noteq> py ''7A''"
    "csv_append_ok (remote_up 5)"
    by (simp_all add: demo_def demo_texts remote_up_def) (simp_all add: py_def)
  have e: "csv_file demo = []"
    by (simp add: demo_def)
  from barcode_and_name_differ_in_logged_name [OF h] h e show ?thesis
    by simp
qed

text \<open>
  The claim that a barcode and its class name give the same log record fails on the class
  name: barcode B123 of class 7A is logged with the barcode, the arrow and the class, the
  name 7A with the class alone. And where the class name is itself a barcode (7B stands
  for 7A here), the barcode B456 of 7B resolves to the id of 7B but the text 7B to the id
  of 7A.
\<close>

theorem barcode_and_name_logged_differently:
  "barcode_dict demo_chain (py ''B123'') = Some (py ''7A'') \<and>
   row_class_name (last (csv_file (process_lap (demo_chain\<lparr>input_var := py ''B123''\<rparr>)
     (remote_up 5)))) = py ''B123'' @ arrow @ py ''7A'' \<and>
   row_class_name (last (csv_file (process_lap (demo_chain\<lparr>input_var := py ''7A''\<rparr>)
     (remote_up 5)))) = py ''7A'' \<and>
   py ''B123'' @ arrow @ py ''7A'' \<noteq> py ''7A'' \<and>
   barcode_dict demo_chain (py ''B456'') = Some (py ''7B'') \<and>
   fst (get_class_id_by_name (demo_chain\<lparr>input_var := py ''B456''\<rparr>) (remote_up 5)
     (py ''B456'')) = Some (py ''id-7b'') \<and>
   fst (get_class_id_by_name (demo_chain\<lparr>input_var := py ''7B''\<rparr>) (remote_up 5)
     (py ''7B'')) = Some (py ''id-7a'') \<and>
   py ''id-7b'' \<noteq> py ''id-7a''"
proof -
  let ?w = "remote_up 5"
  let ?sB = "demo_chain\<lparr>input_var := py ''B123''\<rparr>"
  let ?sC = "demo_chain\<lparr>input_var := py ''7A''\<rparr>"
  have t: "strip (py ''B456'') = py ''B456''" "strip (py ''7B'') = py ''7B''"
    "strip (py ''B123'' @ arrow @ py ''7A'') = py ''B123'' @ arrow @ py ''7A''"
    "py ''B123'' @ arrow @ py ''7A'' \<noteq> py ''7A''" "py ''id-7b'' \<noteq> py ''id-7a''"
    by (simp_all add: py_def arrow_def strip_def is_whitespace_def)
  have k: "py ''7A'' = [55, 65]" "py ''7B'' = [55, 66]" "py ''B123'' = [66, 49, 50, 51]"
    "py ''B456'' = [66, 52, 53, 54]"
    by (simp_all add: py_def)
  have c: "csv_append_ok ?w"
    by (simp add: remote_up_def)
  have hB: "passes_guards ?sB" and hC: "passes_guards ?sC"
    by (simp_all add: passes_guards_def demo_chain_def demo_def demo_texts)
  have nB: "lap_name ?sB = py ''7A''" and nC: "lap_name ?sC = py ''7A''"
    by (simp_all add: lap_name_def barcode_or_name_def demo_chain_def demo_def demo_texts)
       (simp_all add: k)
  have 1: "barcode_dict demo_chain (py ''B123'') = Some (py ''7A'')"
    and 5: "barcode_dict demo_chain (py ''B456'') = Some (py ''7B'')"
    by (simp_all add: demo_chain_def demo_def k)
  have 2: "row_class_name (last (csv_file (process_lap ?sB ?w))) = py ''B123'' @ arrow @ py ''7A''"
    by (simp add: process_lap_last_row [OF hB c] lap_row_def nB demo_texts t)
  have 3: "row_class_name (last (csv_file (process_lap ?sC ?w))) = py ''7A''"
    by (simp add: process_lap_last_row [OF hC c] lap_row_def nC demo_texts)
  have 6: "fst (get_class_id_by_name (demo_chain\<lparr>input_var := py ''B456''\<rparr>) ?w (py ''B456'')) =
      Some (py ''id-7b'')"
    by (simp add: get_class_id_by_name_def barcode_or_name_def demo_chain_def demo_def t Let_def)
       (simp add: k)
  have 7: "fst (get_class_id_by_name (demo_chain\<lparr>input_var := py ''7B''\<rparr>) ?w (py ''7B'')) =
      Some (py ''id-7a'')"
    by (simp add: get_class_id_by_name_def barcode_or_name_def demo_chain_def demo_def t Let_def)
       (simp add: k)
  from 1 2 3 5 6 7 t show ?thesis
    by simp
qed

end
